theory Spec2Isabelle
  imports Main "HOL-Library.AList" "HOL-Library.DAList"
begin

section \<open>The signalling relay of \<open>src/server.ts\<close>\<close>

text \<open>
  The relay keeps two module-level variables, \<open>viewerSockets\<close> (a JavaScript \<open>Map\<close> from
  viewer identifier to socket) and \<open>broadcasterSocket\<close> (a socket or \<open>null\<close>), and reacts to
  the three WebSocket callbacks \<open>open\<close>, \<open>message\<close> and \<open>close\<close>.

  A socket object is identified by a natural number. Its \<open>data\<close> field and its
  \<open>readyState\<close> are components of the state. The calls \<open>ws.send(payload)\<close> and
  \<open>ws.close()\<close> are written, in program order, to a trace of effects.

  The runtime is Bun. There \<open>ws.close()\<close> on an open socket marks the socket closed and
  runs the \<open>close\<close> callback of that socket before it returns; on a socket that is not
  open it does nothing. The callback is therefore re-entered from the loops of the relay
  that close sockets, and the model nests it in the same way. No close event follows later
  for a socket the relay closed itself.

  Two values come from outside the relay and are arguments of the model: the result of
  \<open>JSON.parse\<close> on the decoded frame, and the string \<open>crypto.randomUUID()\<close> returns.
\<close>

subsection \<open>Data\<close>

datatype Role = Broadcaster | Viewer

record ConnectionData =
  role :: "Role option"
  viewerId :: "string option"

text \<open>
  The value \<open>JSON.parse\<close> returns. The relay reads properties of the top-level value only
  and hands everything below it on. A number is a double: a finite one other than
  \<open>-0\<close> is kept as the digits \<open>JSON.stringify\<close> prints for it; \<open>-0\<close> and the two
  infinities, which \<open>JSON.parse\<close> yields for a literal beyond the range of a double such as
  \<open>1e400\<close>, are values of their own. An object is the list of its own properties, each key
  once.
\<close>

datatype number = Finite string | MinusZero | PlusInfinity | MinusInfinity

datatype json =
    JNull
  | JBool bool
  | JNumber number
  | JString string
  | JArray "json list"
  | JObject "(string \<times> json) list"

text \<open>
  What reaches the \<open>try\<close> block of \<open>message\<close>: either \<open>JSON.parse\<close> throws a
  \<open>SyntaxError\<close>, or it yields a value.
\<close>

datatype parsed = ParseFailure | Parsed json

text \<open>
  The exceptions the \<open>catch\<close> clause can see: an \<open>Error\<close> thrown by the relay with its
  message, or an exception of the engine (reading a property of \<open>null\<close>, a syntax error of
  \<open>JSON.parse\<close>) whose message text the engine chooses.
\<close>

datatype thrown = Error string | TypeError | SyntaxError

text \<open>
  The objects handed to \<open>jsonMessage\<close>. A property read from the inbound message may be
  \<open>undefined\<close> (\<open>None\<close>).
\<close>

datatype ServerMessage =
    ViewerCount nat
  | ErrorMsg thrown
  | RegisteredBroadcaster
  | RegisteredViewer string bool
  | ViewerJoined string
  | ViewerLeft string
  | ViewerMissing "json option"
  | Offer "json option" "json option"
  | Answer "json option" "json option"
  | Candidate "json option" "json option" Role
  | BroadcasterEnded
  | Stopped

datatype ReadyState = CONNECTING | OPEN | CLOSING | CLOSED

text \<open>
  \<open>Send ws m\<close> is the call \<open>ws.send(jsonMessage(m))\<close>; \<open>Close ws\<close> is a call
  \<open>ws.close()\<close> that closed an open socket.
\<close>

datatype effect = Send nat ServerMessage | Close nat

text \<open>
  \<open>viewerSockets\<close> is a \<open>Map\<close>: keys are unique and iteration follows insertion order, which
  is what a distinct association list is. \<open>Map.set\<close> is \<open>DAList.update\<close> (replace in place,
  else append), \<open>Map.delete\<close> is \<open>DAList.delete\<close>, \<open>Map.clear\<close> gives \<open>DAList.empty\<close>.
\<close>

record state =
  data :: "nat \<Rightarrow> ConnectionData"
  readyState :: "nat \<Rightarrow> ReadyState"
  viewerSockets :: "(string, nat) alist"
  broadcasterSocket :: "nat option"
  trace :: "effect list"

definition entries :: "state \<Rightarrow> (string \<times> nat) list" where
  "entries s = DAList.impl_of (viewerSockets s)"

definition initial :: state where
  "initial = \<lparr> data = (\<lambda>_. \<lparr> role = None, viewerId = None \<rparr>),
               readyState = (\<lambda>_. CLOSED),
               viewerSockets = DAList.empty,
               broadcasterSocket = None,
               trace = [] \<rparr>"

subsection \<open>Serialisation\<close>

text \<open>
  \<open>jsonMessage\<close> is \<open>JSON.stringify\<close>. \<open>stringify\<close> gives, for a parsed value, the JSON
  value its serialisation denotes: an infinity is written \<open>null\<close> and \<open>-0\<close> is written
  \<open>0\<close>; everything else is written as it is. \<open>plain\<close> holds of the values that contain
  neither.
\<close>

primrec stringify :: "json \<Rightarrow> json" where
  "stringify JNull = JNull"
| "stringify (JBool b) = JBool b"
| "stringify (JNumber n) =
     (case n of
        Finite digits \<Rightarrow> JNumber (Finite digits)
      | MinusZero \<Rightarrow> JNumber (Finite ''0'')
      | PlusInfinity \<Rightarrow> JNull
      | MinusInfinity \<Rightarrow> JNull)"
| "stringify (JString x) = JString x"
| "stringify (JArray xs) = JArray (map stringify xs)"
| "stringify (JObject kvs) = JObject (map (map_prod id stringify) kvs)"

primrec plain :: "json \<Rightarrow> bool" where
  "plain JNull = True"
| "plain (JBool b) = True"
| "plain (JNumber n) = (case n of Finite digits \<Rightarrow> True | _ \<Rightarrow> False)"
| "plain (JString x) = True"
| "plain (JArray xs) = list_all id (map plain xs)"
| "plain (JObject kvs) = list_all snd (map (map_prod id plain) kvs)"

fun decimal :: "nat \<Rightarrow> string" where
  "decimal n =
     (if n < 10 then [char_of (48 + n)]
      else decimal (n div 10) @ [char_of (48 + n mod 10)])"

text \<open>A property of an object literal: \<open>JSON.stringify\<close> leaves out one that is \<open>undefined\<close>.\<close>

definition property :: "string \<Rightarrow> json option \<Rightarrow> (string \<times> json) list" where
  "property k v = (case v of Some x \<Rightarrow> [(k, stringify x)] | None \<Rightarrow> [])"

text \<open>
  The JSON value of the text \<open>jsonMessage\<close> returns for each object the relay builds.
  \<open>engine\<close> gives the message text of the engine's own exceptions.
\<close>

fun jsonMessage :: "(thrown \<Rightarrow> string) \<Rightarrow> ServerMessage \<Rightarrow> json" where
  "jsonMessage engine (ViewerCount n) =
     JObject [(''type'', JString ''viewer-count''), (''count'', JNumber (Finite (decimal n)))]"
| "jsonMessage engine (ErrorMsg e) =
     JObject [(''type'', JString ''error''),
              (''message'', JString (case e of Error m \<Rightarrow> m | _ \<Rightarrow> engine e))]"
| "jsonMessage engine RegisteredBroadcaster =
     JObject [(''type'', JString ''registered''), (''role'', JString ''broadcaster'')]"
| "jsonMessage engine (RegisteredViewer vid hasBroadcaster) =
     JObject [(''type'', JString ''registered''), (''role'', JString ''viewer''),
              (''viewerId'', JString vid), (''hasBroadcaster'', JBool hasBroadcaster)]"
| "jsonMessage engine (ViewerJoined vid) =
     JObject [(''type'', JString ''viewer-joined''), (''viewerId'', JString vid)]"
| "jsonMessage engine (ViewerLeft vid) =
     JObject [(''type'', JString ''viewer-left''), (''viewerId'', JString vid)]"
| "jsonMessage engine (ViewerMissing vid) =
     JObject ((''type'', JString ''viewer-missing'') # property ''viewerId'' vid)"
| "jsonMessage engine (Offer vid sdp) =
     JObject ((''type'', JString ''offer'') # property ''viewerId'' vid @ property ''sdp'' sdp)"
| "jsonMessage engine (Answer vid sdp) =
     JObject ((''type'', JString ''answer'') # property ''viewerId'' vid @ property ''sdp'' sdp)"
| "jsonMessage engine (Candidate vid candidate origin) =
     JObject ((''type'', JString ''candidate'') # property ''viewerId'' vid
              @ property ''candidate'' candidate
              @ [(''origin'', JString (case origin of Broadcaster \<Rightarrow> ''broadcaster''
                                                     | Viewer \<Rightarrow> ''viewer''))])"
| "jsonMessage engine BroadcasterEnded = JObject [(''type'', JString ''broadcaster-ended'')]"
| "jsonMessage engine Stopped = JObject [(''type'', JString ''stopped'')]"

subsection \<open>The socket primitives\<close>

definition ws_send :: "state \<Rightarrow> nat \<Rightarrow> ServerMessage \<Rightarrow> state" where
  "ws_send s ws m = s\<lparr> trace := trace s @ [Send ws m] \<rparr>"

text \<open>What \<open>ws.close()\<close> does to an open socket before the callback runs.\<close>

definition markClosed :: "state \<Rightarrow> nat \<Rightarrow> state" where
  "markClosed s ws = s\<lparr> readyState := (readyState s)(ws := CLOSED),
                         trace := trace s @ [Close ws] \<rparr>"

text \<open>
  \<open>viewerSockets.get(key)\<close>: the keys of the map are strings, so a key that is not a
  string (or is \<open>undefined\<close>) finds nothing.
\<close>

definition get_viewer :: "state \<Rightarrow> json option \<Rightarrow> nat option" where
  "get_viewer s key =
     (case key of Some (JString k) \<Rightarrow> DAList.lookup (viewerSockets s) k | _ \<Rightarrow> None)"

text \<open>
  \<open>message.f\<close> on a parsed value other than \<open>null\<close>: an object yields its property or
  \<open>undefined\<close>; the other values have none of the properties the relay reads.
\<close>

definition field :: "json \<Rightarrow> string \<Rightarrow> json option" where
  "field j k = (case j of JObject kvs \<Rightarrow> map_of kvs k | _ \<Rightarrow> None)"

subsection \<open>The functions of the relay\<close>

definition broadcastViewerCount :: "state \<Rightarrow> state" where
  "broadcastViewerCount s =
     (let payload = ViewerCount (length (entries s));
          s1 = fold (\<lambda>(vid, ws) st. ws_send st ws payload) (entries s) s
      in case broadcasterSocket s1 of
           Some b \<Rightarrow> if readyState s1 b = OPEN then ws_send s1 b payload else s1
         | None \<Rightarrow> s1)"

definition ensureBroadcaster :: "state \<Rightarrow> nat \<Rightarrow> thrown + unit" where
  "ensureBroadcaster s ws =
     (if role (data s ws) \<noteq> Some Broadcaster
      then Inl (Error ''Only the broadcaster may perform this action'')
      else Inr ())"

definition ensureViewer :: "state \<Rightarrow> nat \<Rightarrow> thrown + unit" where
  "ensureViewer s ws =
     (if role (data s ws) \<noteq> Some Viewer
         \<or> viewerId (data s ws) = None \<or> viewerId (data s ws) = Some []
      then Inl (Error ''Only a registered viewer may perform this action'')
      else Inr ())"

subsection \<open>The close callback and the loop that ends the viewers\<close>

text \<open>
  \<open>websocket_close\<close> is the \<open>close\<close> callback. \<open>endViewers\<close> is the loop
  \<open>viewerSockets.forEach\<close> that the broadcaster branch of the callback and \<open>stopBroadcast\<close>
  both run: send \<open>broadcaster-ended\<close>, then \<open>viewerWs.close()\<close>, which for an open socket
  marks it closed and runs the callback of that viewer at once.

  The loop walks the entries the map had when it started. The nested callbacks delete keys
  or clear the map and never insert, and \<open>forEach\<close> does not visit an entry deleted before
  its turn: hence the test that the entry is still in the map.

  The number of map entries whose socket is open drops with every nested callback, which
  is why the recursion ends.
\<close>

definition openViewers :: "state \<Rightarrow> nat" where
  "openViewers s = length (filter (\<lambda>(vid, ws). readyState s ws = OPEN) (entries s))"

function websocket_close :: "state \<Rightarrow> nat \<Rightarrow> state"
     and endViewers :: "(string \<times> nat) list \<Rightarrow> state \<Rightarrow> state"
where
  "websocket_close s ws =
     (if role (data s ws) = Some Broadcaster then
        broadcastViewerCount
          ((endViewers (entries s) (s\<lparr> broadcasterSocket := None \<rparr>))
             \<lparr> viewerSockets := DAList.empty \<rparr>)
      else
        (case viewerId (data s ws) of
           Some v \<Rightarrow>
             if role (data s ws) = Some Viewer \<and> v \<noteq> [] then
               let s1 = s\<lparr> viewerSockets := DAList.delete v (viewerSockets s) \<rparr>;
                   s2 = (case broadcasterSocket s1 of
                           Some b \<Rightarrow> ws_send s1 b (ViewerLeft v)
                         | None \<Rightarrow> s1)
               in broadcastViewerCount s2
             else s
         | None \<Rightarrow> s))"
| "endViewers [] s = s"
| "endViewers ((vid, viewerWs) # rest) s =
     (if DAList.lookup (viewerSockets s) vid = Some viewerWs then
        (if readyState s viewerWs = OPEN then
           endViewers rest
             (websocket_close (markClosed (ws_send s viewerWs BroadcasterEnded) viewerWs) viewerWs)
         else endViewers rest (ws_send s viewerWs BroadcasterEnded))
      else endViewers rest s)"
  by pat_completeness auto


termination
proof -
  have sends: "fold (\<lambda>(vid, ws) st. ws_send st ws m) xs t
                 = t\<lparr> trace := trace t @ map (\<lambda>(vid, ws). Send ws m) xs \<rparr>" for m xs t
    by (induction xs arbitrary: t) (auto simp: ws_send_def)
  have count: "openViewers (broadcastViewerCount t) = openViewers t" for t
    unfolding broadcastViewerCount_def Let_def sends
    by (simp add: openViewers_def entries_def ws_send_def split: option.splits)
  have sent: "openViewers (ws_send t w m) = openViewers t" for t w m
    by (simp add: openViewers_def entries_def ws_send_def)
  have deleted: "openViewers (t\<lparr> viewerSockets := DAList.delete v (viewerSockets t) \<rparr>)
                   \<le> openViewers t" for t v
  proof -
    have "filter (\<lambda>(vid, ws). readyState t ws = OPEN) (AList.delete v (entries t))
            = AList.delete v (filter (\<lambda>(vid, ws). readyState t ws = OPEN) (entries t))"
      by (simp add: AList.delete_eq conj_commute)
    then show ?thesis
      by (simp add: openViewers_def entries_def DAList.delete.rep_eq length_delete_le)
  qed
  have closing: "openViewers (markClosed (ws_send t w m) w) < openViewers t"
    if "DAList.lookup (viewerSockets t) vid = Some w" and "readyState t w = OPEN" for t vid w m
  proof -
    let ?P = "\<lambda>(vid, ws). ((readyState t)(w := CLOSED)) ws = OPEN"
    let ?Q = "\<lambda>(vid, ws). readyState t ws = OPEN"
    from that(1) have mem: "(vid, w) \<in> set (entries t)"
      by (auto simp: entries_def DAList.lookup.rep_eq dest: map_of_SomeD)
    have twice: "filter ?P xs = filter ?P (filter ?Q xs)" for xs
      by (induction xs) auto
    have inQ: "(vid, w) \<in> set (filter ?Q (entries t))"
      using mem that(2) by simp
    have notP: "\<not> ?P (vid, w)"
      by simp
    have "length (filter ?P (filter ?Q (entries t))) < length (filter ?Q (entries t))"
      using inQ notP by (rule length_filter_less)
    then have "length (filter ?P (entries t)) < length (filter ?Q (entries t))"
      by (simp only: twice [symmetric])
    then show ?thesis
      by (simp add: openViewers_def entries_def markClosed_def ws_send_def)
  qed
  have shrinks: "openViewers (websocket_close t w) \<le> openViewers t"
    if "websocket_close_endViewers_dom (Inl (t, w))" for t w
  proof (cases "role (data t w) = Some Broadcaster")
    case True
    with that have "websocket_close t w = broadcastViewerCount
          ((endViewers (entries t) (t\<lparr> broadcasterSocket := None \<rparr>))
             \<lparr> viewerSockets := DAList.empty \<rparr>)"
      by (simp add: websocket_close.psimps)
    then show ?thesis
      by (simp add: count) (simp add: openViewers_def entries_def DAList.empty.rep_eq)
  next
    case False
    show ?thesis
    proof (cases "viewerId (data t w)")
      case None
      with False that show ?thesis by (simp add: websocket_close.psimps)
    next
      case (Some v)
      show ?thesis
      proof (cases "role (data t w) = Some Viewer \<and> v \<noteq> []")
        case leaves: True
        let ?t1 = "t\<lparr> viewerSockets := DAList.delete v (viewerSockets t) \<rparr>"
        have "openViewers (websocket_close t w) = openViewers ?t1"
          using that False Some leaves
          by (simp add: websocket_close.psimps Let_def count sent split: option.splits)
        also have "\<dots> \<le> openViewers t"
          by (rule deleted)
        finally show ?thesis .
      next
        case False
        with \<open>role (data t w) \<noteq> Some Broadcaster\<close> Some that show ?thesis
          by (auto simp: websocket_close.psimps)
      qed
    qed
  qed
  show ?thesis
  proof (relation "measures [\<lambda>x. case x of Inl (s, ws) \<Rightarrow> openViewers s | Inr (xs, s) \<Rightarrow> openViewers s,
                           \<lambda>x. case x of Inl _ \<Rightarrow> Suc 0 | Inr _ \<Rightarrow> 0,
                           \<lambda>x. case x of Inl _ \<Rightarrow> 0 | Inr (xs, s) \<Rightarrow> length xs]",
         goal_cases)
    case 1
    show ?case by simp
  next
    case (2 s ws)
    show ?case by (simp add: openViewers_def entries_def)
  next
    case (3 vid viewerWs rest s)
    then show ?case by (simp add: closing)
  next
    case (4 vid viewerWs rest s)
    from 4(1,2) have "openViewers (markClosed (ws_send s viewerWs BroadcasterEnded) viewerWs)
                        < openViewers s"
      by (rule closing)
    moreover from 4(3) have "openViewers (websocket_close
              (markClosed (ws_send s viewerWs BroadcasterEnded) viewerWs) viewerWs)
            \<le> openViewers (markClosed (ws_send s viewerWs BroadcasterEnded) viewerWs)"
      by (rule shrinks)
    ultimately show ?case by simp
  next
    case (5 vid viewerWs rest s)
    show ?case by (simp add: sent)
  next
    case (6 vid viewerWs rest s)
    show ?case by simp
  qed
qed


declare websocket_close.simps [simp del]

text \<open>\<open>ws.close()\<close> as the rest of the relay calls it.\<close>

definition ws_close :: "state \<Rightarrow> nat \<Rightarrow> state" where
  "ws_close s ws =
     (if readyState s ws = OPEN then websocket_close (markClosed s ws) ws else s)"

text \<open>
  \<open>handleRegister(ws, role)\<close>. The argument is whatever \<open>message.role\<close> holds; only the
  comparison with \<open>"broadcaster"\<close> is made. \<open>uuid\<close> is the string \<open>crypto.randomUUID()\<close>
  returns when the viewer branch calls it. Closing the incumbent runs its \<open>close\<close>
  callback before the newcomer is installed.
\<close>

definition handleRegister :: "state \<Rightarrow> nat \<Rightarrow> json option \<Rightarrow> string \<Rightarrow> state" where
  "handleRegister s ws r uuid =
     (if r = Some (JString ''broadcaster'') then
        let s1 = (case broadcasterSocket s of
                    Some b \<Rightarrow>
                      if readyState s b = OPEN
                      then ws_close (ws_send s b
                             (ErrorMsg (Error ''Another broadcaster took over the session.''))) b
                      else s
                  | None \<Rightarrow> s);
            s2 = s1\<lparr> data := (data s1)(ws := (data s1 ws)\<lparr> role := Some Broadcaster \<rparr>),
                     broadcasterSocket := Some ws \<rparr>;
            s3 = ws_send s2 ws RegisteredBroadcaster
        in fold (\<lambda>(vid, viewerWs) st. ws_send st ws (ViewerJoined vid)) (entries s3) s3
      else
        let s1 = s\<lparr> data := (data s)(ws := (data s ws)\<lparr> role := Some Viewer,
                                                         viewerId := Some uuid \<rparr>),
                    viewerSockets := DAList.update uuid ws (viewerSockets s) \<rparr>;
            s2 = ws_send s1 ws (RegisteredViewer uuid (broadcasterSocket s1 \<noteq> None));
            s3 = (case broadcasterSocket s2 of
                    Some b \<Rightarrow> ws_send s2 b (ViewerJoined uuid)
                  | None \<Rightarrow> s2)
        in broadcastViewerCount s3)"

definition forwardOffer :: "state \<Rightarrow> json option \<Rightarrow> json option \<Rightarrow> state" where
  "forwardOffer s vid sdp =
     (case get_viewer s vid of
        None \<Rightarrow> (case broadcasterSocket s of
                   Some b \<Rightarrow> ws_send s b (ViewerMissing vid)
                 | None \<Rightarrow> s)
      | Some viewerWs \<Rightarrow> ws_send s viewerWs (Offer vid sdp))"

definition forwardAnswer :: "state \<Rightarrow> json option \<Rightarrow> json option \<Rightarrow> state" where
  "forwardAnswer s vid sdp =
     (case broadcasterSocket s of
        None \<Rightarrow> s
      | Some b \<Rightarrow> ws_send s b (Answer vid sdp))"

definition forwardCandidateToViewer :: "state \<Rightarrow> json option \<Rightarrow> json option \<Rightarrow> state" where
  "forwardCandidateToViewer s vid candidate =
     (case get_viewer s vid of
        Some viewerWs \<Rightarrow> ws_send s viewerWs (Candidate vid candidate Broadcaster)
      | None \<Rightarrow> s)"

definition forwardCandidateToBroadcaster :: "state \<Rightarrow> json option \<Rightarrow> json option \<Rightarrow> state" where
  "forwardCandidateToBroadcaster s vid candidate =
     (case broadcasterSocket s of
        Some b \<Rightarrow> ws_send s b (Candidate vid candidate Viewer)
      | None \<Rightarrow> s)"

text \<open>
  \<open>stopBroadcast()\<close>. The callbacks the loop runs may set \<open>broadcasterSocket\<close> to
  \<open>null\<close>; the call \<open>broadcasterSocket.send\<close> after the loop then throws a \<open>TypeError\<close>,
  which leaves the function with the state reached so far.
\<close>

definition stopBroadcast :: "state \<Rightarrow> thrown option \<times> state" where
  "stopBroadcast s =
     (case broadcasterSocket s of
        None \<Rightarrow> (None, s)
      | Some _ \<Rightarrow>
          let s1 = endViewers (entries s) s;
              s2 = s1\<lparr> viewerSockets := DAList.empty \<rparr>
          in (case broadcasterSocket s2 of
                None \<Rightarrow> (Some TypeError, s2)
              | Some b \<Rightarrow> (None, broadcastViewerCount (ws_send s2 b Stopped))))"

subsection \<open>The callbacks \<open>open\<close> and \<open>message\<close>\<close>

definition websocket_open :: "state \<Rightarrow> nat \<Rightarrow> state" where
  "websocket_open s ws = s\<lparr> data := (data s)(ws := \<lparr> role = None, viewerId = None \<rparr>) \<rparr>"

text \<open>
  The body of the \<open>try\<close> block, with the exception that leaves it, if any, and the state
  it leaves. Reading \<open>message.type\<close> of \<open>null\<close> throws; an unknown type reaches
  \<open>default\<close>, which only logs. The \<open>catch\<close> clause reports the exception to the sender.
\<close>

definition dispatch :: "state \<Rightarrow> nat \<Rightarrow> parsed \<Rightarrow> string \<Rightarrow> thrown option \<times> state" where
  "dispatch s ws raw uuid =
     (case raw of
        ParseFailure \<Rightarrow> (Some SyntaxError, s)
      | Parsed message \<Rightarrow>
          if message = JNull then (Some TypeError, s)
          else
          let t = field message ''type'' in
          if t = Some (JString ''register'') then
            (None, handleRegister s ws (field message ''role'') uuid)
          else if t = Some (JString ''offer'') then
            (case ensureBroadcaster s ws of
               Inl e \<Rightarrow> (Some e, s)
             | Inr _ \<Rightarrow> (None, forwardOffer s (field message ''viewerId'')
                                   (field message ''sdp'')))
          else if t = Some (JString ''answer'') then
            (case ensureViewer s ws of
               Inl e \<Rightarrow> (Some e, s)
             | Inr _ \<Rightarrow> (None, forwardAnswer s (field message ''viewerId'')
                                   (field message ''sdp'')))
          else if t = Some (JString ''candidate'') then
            (if field message ''origin'' = Some (JString ''broadcaster'') then
               (case ensureBroadcaster s ws of
                  Inl e \<Rightarrow> (Some e, s)
                | Inr _ \<Rightarrow> (None, forwardCandidateToViewer s (field message ''viewerId'')
                                      (field message ''candidate'')))
             else
               (case ensureViewer s ws of
                  Inl e \<Rightarrow> (Some e, s)
                | Inr _ \<Rightarrow> (None, forwardCandidateToBroadcaster s (field message ''viewerId'')
                                      (field message ''candidate''))))
          else if t = Some (JString ''stop'') then
            (case ensureBroadcaster s ws of
               Inl e \<Rightarrow> (Some e, s)
             | Inr _ \<Rightarrow> stopBroadcast s)
          else (None, s))"

definition websocket_message :: "state \<Rightarrow> nat \<Rightarrow> parsed \<Rightarrow> string \<Rightarrow> state" where
  "websocket_message s ws raw uuid =
     (case dispatch s ws raw uuid of
        (None, s') \<Rightarrow> s'
      | (Some e, s') \<Rightarrow> ws_send s' ws (ErrorMsg e))"

subsection \<open>Observing a run\<close>

text \<open>
  What a connection receives. The runtime writes a payload to a socket that is open and
  drops one handed to a socket that is not. \<open>delivered\<close> replays a list of effects from
  given ready states under that rule, \<open>received\<close> keeps what reaches one socket, and
  \<open>readyAfter\<close> gives the ready states the effects leave behind. \<open>target\<close> is the socket
  an effect is about.
\<close>

fun delivered :: "(nat \<Rightarrow> ReadyState) \<Rightarrow> effect list \<Rightarrow> (nat \<times> ServerMessage) list" where
  "delivered rs [] = []"
| "delivered rs (Send ws m # es) =
     (if rs ws = OPEN then (ws, m) # delivered rs es else delivered rs es)"
| "delivered rs (Close ws # es) = delivered (rs(ws := CLOSED)) es"

definition received :: "(nat \<Rightarrow> ReadyState) \<Rightarrow> effect list \<Rightarrow> nat \<Rightarrow> ServerMessage list" where
  "received rs es ws = map snd (filter (\<lambda>(x, m). x = ws) (delivered rs es))"

fun readyAfter :: "(nat \<Rightarrow> ReadyState) \<Rightarrow> effect list \<Rightarrow> (nat \<Rightarrow> ReadyState)" where
  "readyAfter rs [] = rs"
| "readyAfter rs (Send ws m # es) = readyAfter rs es"
| "readyAfter rs (Close ws # es) = readyAfter (rs(ws := CLOSED)) es"

fun target :: "effect \<Rightarrow> nat" where
  "target (Send ws m) = ws"
| "target (Close ws) = ws"

text \<open>What \<open>broadcastViewerCount\<close> sends in a state.\<close>

definition countEffects :: "state \<Rightarrow> effect list" where
  "countEffects s =
     map (\<lambda>(vid, ws). Send ws (ViewerCount (length (entries s)))) (entries s)
     @ (case broadcasterSocket s of
          Some b \<Rightarrow> if readyState s b = OPEN then [Send b (ViewerCount (length (entries s)))] else []
        | None \<Rightarrow> [])"

text \<open>
  A registry whose entries are registered viewers: every entry of the map is a socket that
  has role viewer and carries the key of the entry as its \<open>viewerId\<close>.
\<close>

definition registeredViewers :: "state \<Rightarrow> bool" where
  "registeredViewers s =
     (\<forall>(vid, viewerWs) \<in> set (entries s).
        role (data s viewerWs) = Some Viewer
      \<and> viewerId (data s viewerWs) = Some vid \<and> vid \<noteq> [])"

text \<open>
  The effects of the loop that ends the viewers when every entry it visits is a registered
  viewer. \<open>slot\<close> is the broadcaster slot during the loop, \<open>rs\<close> the ready states and \<open>m\<close>
  the entries of the map when the loop reaches the list. An open viewer is sent
  \<open>broadcaster-ended\<close> and closed; its callback deletes it from the map, reports
  \<open>viewer-left\<close> to the slot and broadcasts the new size of the map. A viewer whose
  channel is not open is only sent \<open>broadcaster-ended\<close> and stays in the map until the
  map is cleared.
\<close>

fun cascadeEffects ::
  "nat option \<Rightarrow> (nat \<Rightarrow> ReadyState) \<Rightarrow> (string \<times> nat) list \<Rightarrow> (string \<times> nat) list \<Rightarrow> effect list"
where
  "cascadeEffects slot rs m [] = []"
| "cascadeEffects slot rs m ((vid, viewerWs) # rest) =
     (if rs viewerWs = OPEN then
        [Send viewerWs BroadcasterEnded, Close viewerWs]
        @ (case slot of Some b \<Rightarrow> [Send b (ViewerLeft vid)] | None \<Rightarrow> [])
        @ map (\<lambda>(k, ws). Send ws (ViewerCount (length (AList.delete vid m)))) (AList.delete vid m)
        @ (case slot of
             Some b \<Rightarrow> if (rs(viewerWs := CLOSED)) b = OPEN
                       then [Send b (ViewerCount (length (AList.delete vid m)))] else []
           | None \<Rightarrow> [])
        @ cascadeEffects slot (rs(viewerWs := CLOSED)) (AList.delete vid m) rest
      else Send viewerWs BroadcasterEnded # cascadeEffects slot rs m rest)"

text \<open>The ready states after the sockets of a list of entries have been closed.\<close>

definition closedBy :: "(string \<times> nat) list \<Rightarrow> (nat \<Rightarrow> ReadyState) \<Rightarrow> nat \<Rightarrow> ReadyState" where
  "closedBy xs rs ws = (if ws \<in> snd ` set xs \<and> rs ws = OPEN then CLOSED else rs ws)"

text \<open>
  How a state can differ from an earlier one across the close callback: the connection
  data are the same, a socket has the ready state it had or was open and is closed, the
  slot is what it was or \<open>null\<close>, and the trace has grown.
\<close>

definition evolves :: "state \<Rightarrow> state \<Rightarrow> bool" where
  "evolves s t =
     (data t = data s
    \<and> (\<forall>w. readyState t w \<noteq> readyState s w \<longrightarrow> readyState s w = OPEN \<and> readyState t w = CLOSED)
    \<and> (broadcasterSocket t = broadcasterSocket s \<or> broadcasterSocket t = None)
    \<and> (\<exists>es. trace t = trace s @ es))"

text \<open>Every open socket with role broadcaster is the one the slot holds.\<close>

definition soleBroadcaster :: "state \<Rightarrow> bool" where
  "soleBroadcaster s =
     (\<forall>w. readyState s w = OPEN \<and> role (data s w) = Some Broadcaster
          \<longrightarrow> broadcasterSocket s = Some w)"

subsection \<open>Events\<close>

text \<open>
  The events the runtime feeds to the callbacks. A connection is open when \<open>open\<close> runs
  and closed when \<open>close\<close> runs; \<open>Receive\<close> carries the parse result of the frame and the
  identifier \<open>crypto.randomUUID()\<close> would return during that callback. \<open>Disconnect\<close> is
  the peer or the network closing the channel. The runtime runs \<open>close\<close> once for a
  socket: a socket that is already closed, by the relay or otherwise, has no close event
  left.
\<close>

datatype event = Connect nat | Receive nat parsed string | Disconnect nat

fun step :: "state \<Rightarrow> event \<Rightarrow> state" where
  "step s (Connect ws) = websocket_open (s\<lparr> readyState := (readyState s)(ws := OPEN) \<rparr>) ws"
| "step s (Receive ws raw uuid) = websocket_message s ws raw uuid"
| "step s (Disconnect ws) =
     (if readyState s ws = OPEN
      then websocket_close (s\<lparr> readyState := (readyState s)(ws := CLOSED) \<rparr>) ws
      else s)"

definition run :: "event list \<Rightarrow> state" where
  "run evs = foldl step initial evs"

subsection \<open>Concrete messages and sessions\<close>

definition register_msg :: "string \<Rightarrow> parsed" where
  "register_msg r = Parsed (JObject [(''type'', JString ''register''), (''role'', JString r)])"

definition offer_msg :: "string \<Rightarrow> json" where
  "offer_msg v = JObject [(''type'', JString ''offer''), (''viewerId'', JString v),
                          (''sdp'', JObject [(''type'', JString ''offer''), (''sdp'', JString ''v=0'')])]"

definition answer_msg :: "string \<Rightarrow> json" where
  "answer_msg v = JObject [(''type'', JString ''answer''), (''viewerId'', JString v),
                           (''sdp'', JObject [(''type'', JString ''answer''), (''sdp'', JString ''v=0'')])]"

definition candidate_msg :: "string \<Rightarrow> string \<Rightarrow> json" where
  "candidate_msg v origin =
     JObject [(''type'', JString ''candidate''), (''viewerId'', JString v),
              (''candidate'', JObject [(''candidate'', JString ''candidate:0'')]),
              (''origin'', JString origin)]"

definition stop_msg :: json where
  "stop_msg = JObject [(''type'', JString ''stop'')]"

definition ping_msg :: json where
  "ping_msg = JObject [(''type'', JString ''ping'')]"

text \<open>
  An offer whose session description is a number literal beyond the range of a double,
  as \<open>JSON.parse\<close> returns it for the frame
  \<open>{"type":"offer","viewerId":"v1","sdp":1e400}\<close>.
\<close>

definition huge_offer_msg :: json where
  "huge_offer_msg = JObject [(''type'', JString ''offer''), (''viewerId'', JString ''v1''),
                             (''sdp'', JNumber PlusInfinity)]"

text \<open>A sequence of \<open>register\<close> messages with role \<open>broadcaster\<close>, one per socket listed.\<close>

definition registerBroadcasters :: "state \<Rightarrow> (nat \<times> string) list \<Rightarrow> state" where
  "registerBroadcasters s wus =
     fold (\<lambda>(ws, uuid) st. websocket_message st ws (register_msg ''broadcaster'') uuid) wus s"

text \<open>
  One broadcaster (socket 10) and two viewers (sockets 11 and 12, identifiers \<open>v1\<close>
  and \<open>v2\<close>), reached from the initial state; the same with two more sockets connected
  and not yet registered.
\<close>

definition session_events :: "event list" where
  "session_events =
     [Connect 10, Receive 10 (register_msg ''broadcaster'') ''u0'',
      Connect 11, Receive 11 (register_msg ''viewer'') ''v1'',
      Connect 12, Receive 12 (register_msg ''viewer'') ''v2'']"

definition session :: state where "session = run session_events"

definition lobby :: state where
  "lobby = run (session_events @ [Connect 20, Connect 21])"

text \<open>
  A takeover: socket 20 registers as broadcaster while socket 10 holds the slot and one
  viewer is registered.
\<close>

definition takeover_events :: "event list" where
  "takeover_events =
     [Connect 10, Receive 10 (register_msg ''broadcaster'') ''u0'',
      Connect 11, Receive 11 (register_msg ''viewer'') ''v1'',
      Connect 20, Receive 20 (register_msg ''broadcaster'') ''u1'']"

definition takeover :: state where "takeover = run takeover_events"

text \<open>
  A connection that registers as viewer and then, on the same socket, as broadcaster: it
  holds the slot and is still an entry of the viewer map.
\<close>

definition dual_events :: "event list" where
  "dual_events =
     [Connect 30, Receive 30 (register_msg ''viewer'') ''x1'',
      Receive 30 (register_msg ''broadcaster'') ''u1'']"

definition dual :: state where "dual = run dual_events"

section \<open>Auxiliary facts\<close>

subsection \<open>Folds and frames\<close>

lemma fold_send_same:
  "fold (\<lambda>(vid, ws) st. ws_send st ws m) xs s
     = s\<lparr> trace := trace s @ map (\<lambda>(vid, ws). Send ws m) xs \<rparr>"
  by (induction xs arbitrary: s) (auto simp: ws_send_def)

lemma fold_send_joined:
  "fold (\<lambda>(vid, viewerWs) st. ws_send st ws (ViewerJoined vid)) xs s
     = s\<lparr> trace := trace s @ map (\<lambda>(vid, viewerWs). Send ws (ViewerJoined vid)) xs \<rparr>"
  by (induction xs arbitrary: s) (auto simp: ws_send_def)

lemma broadcastViewerCount_eq:
  "broadcastViewerCount s = s\<lparr> trace := trace s @ countEffects s \<rparr>"
  unfolding broadcastViewerCount_def Let_def fold_send_same countEffects_def
  by (simp add: ws_send_def split: option.splits)

lemma entries_clear [simp]: "entries (s\<lparr> viewerSockets := DAList.empty \<rparr>) = []"
  by (simp add: entries_def DAList.empty.rep_eq)

lemma entries_frame [simp]:
  "entries (s\<lparr> data := d \<rparr>) = entries s"
  "entries (s\<lparr> readyState := r \<rparr>) = entries s"
  "entries (s\<lparr> broadcasterSocket := b \<rparr>) = entries s"
  "entries (s\<lparr> trace := t \<rparr>) = entries s"
  by (simp_all add: entries_def)

lemma entries_delete:
  "entries (s\<lparr> viewerSockets := DAList.delete v (viewerSockets s) \<rparr>) = AList.delete v (entries s)"
  by (simp add: entries_def DAList.delete.rep_eq)

lemma countEffects_cong:
  "entries s = entries t \<Longrightarrow> broadcasterSocket s = broadcasterSocket t
     \<Longrightarrow> readyState s = readyState t \<Longrightarrow> countEffects s = countEffects t"
  by (simp add: countEffects_def split: option.splits)

lemma length_delete:
  "distinct (map fst xs) \<Longrightarrow> map_of xs k = Some v \<Longrightarrow> Suc (length (AList.delete k xs)) = length xs"
proof (induction xs)
  case Nil
  then show ?case by simp
next
  case (Cons p xs)
  obtain k' v' where p: "p = (k', v')" by (cases p)
  show ?case
  proof (cases "k' = k")
    case True
    with Cons.prems(1) have "k \<notin> fst ` set xs" by (simp add: p)
    then have "AList.delete k xs = xs"
      by (simp add: delete_id image_iff)
    with True show ?thesis by (simp add: p)
  next
    case False
    with Cons show ?thesis by (simp add: p)
  qed
qed

subsection \<open>What a socket receives\<close>

lemma received_simps:
  "received rs [] w = []"
  "received rs (Send x m # es) w
     = (if rs x = OPEN \<and> x = w then m # received rs es w else received rs es w)"
  "received rs (Close x # es) w = received (rs(x := CLOSED)) es w"
  by (auto simp: received_def)

lemma delivered_append:
  "delivered rs (es @ fs) = delivered rs es @ delivered (readyAfter rs es) fs"
proof (induction es arbitrary: rs)
  case Nil
  show ?case by simp
next
  case (Cons e es)
  then show ?case by (cases e) (simp_all add: fun_upd_def)
qed

lemma received_append:
  "received rs (es @ fs) w = received rs es w @ received (readyAfter rs es) fs w"
  by (simp add: received_def delivered_append)

subsection \<open>The close callback\<close>

lemma evolves_refl: "evolves s s"
  by (simp add: evolves_def)

lemma evolves_trans [trans]: "evolves s t \<Longrightarrow> evolves t u \<Longrightarrow> evolves s u"
  unfolding evolves_def by (metis append.assoc)

lemma evolves_send: "evolves s (ws_send s ws m)"
  by (simp add: evolves_def ws_send_def)

lemma evolves_count: "evolves s (broadcastViewerCount s)"
  by (simp add: evolves_def broadcastViewerCount_eq)

lemma evolves_markClosed: "readyState s ws = OPEN \<Longrightarrow> evolves s (markClosed s ws)"
  by (simp add: evolves_def markClosed_def)

lemma evolves_viewers: "evolves s (s\<lparr> viewerSockets := m \<rparr>)"
  by (simp add: evolves_def)

lemma evolves_slot: "evolves s (s\<lparr> broadcasterSocket := None \<rparr>)"
  by (simp add: evolves_def)

text \<open>
  However deep the callbacks nest, they leave the connection data alone, never reopen a
  socket, never put a socket into the slot, and only add to the trace.
\<close>

lemma close_evolves: "evolves s (websocket_close s ws)"
  and endViewers_evolves: "evolves s (endViewers xs s)"
proof (induction s ws and xs s rule: websocket_close_endViewers.induct)
  case (1 s ws)
  show ?case
  proof (cases "role (data s ws) = Some Broadcaster")
    case True
    let ?s1 = "s\<lparr> broadcasterSocket := None \<rparr>"
    let ?s2 = "endViewers (entries s) ?s1"
    let ?s3 = "?s2\<lparr> viewerSockets := DAList.empty \<rparr>"
    have eq: "websocket_close s ws = broadcastViewerCount ?s3"
      using True by (simp add: websocket_close.simps)
    have "evolves s ?s1" by (rule evolves_slot)
    also have "evolves ?s1 ?s2" using True by (rule 1)
    also have "evolves ?s2 ?s3" by (rule evolves_viewers)
    also have "evolves ?s3 (broadcastViewerCount ?s3)" by (rule evolves_count)
    finally show ?thesis unfolding eq .
  next
    case False
    then show ?thesis
      by (simp add: websocket_close.simps evolves_def broadcastViewerCount_eq ws_send_def Let_def
            split: option.splits)
  qed
next
  case (2 s)
  show ?case by (simp add: evolves_refl)
next
  case (3 vid viewerWs rest s)
  show ?case
  proof (cases "DAList.lookup (viewerSockets s) vid = Some viewerWs")
    case False
    then show ?thesis using 3(4) by simp
  next
    case present: True
    show ?thesis
    proof (cases "readyState s viewerWs = OPEN")
      case False
      have "evolves s (ws_send s viewerWs BroadcasterEnded)" by (rule evolves_send)
      also have "evolves \<dots> (endViewers rest (ws_send s viewerWs BroadcasterEnded))"
        using present False by (rule 3(3))
      finally show ?thesis using present False by simp
    next
      case True
      let ?s1 = "ws_send s viewerWs BroadcasterEnded"
      let ?s2 = "markClosed ?s1 viewerWs"
      let ?s3 = "websocket_close ?s2 viewerWs"
      have "evolves s ?s1" by (rule evolves_send)
      also have "evolves ?s1 ?s2" using True by (simp add: evolves_markClosed ws_send_def)
      also have "evolves ?s2 ?s3" using present True by (rule 3(1))
      also have "evolves ?s3 (endViewers rest ?s3)" using present True by (rule 3(2))
      finally show ?thesis using present True by simp
    qed
  qed
qed

text \<open>The callback of a registered viewer.\<close>

lemma websocket_close_viewer:
  assumes "role (data s ws) = Some Viewer" and "viewerId (data s ws) = Some v" and "v \<noteq> []"
  shows "websocket_close s ws =
     s\<lparr> viewerSockets := DAList.delete v (viewerSockets s),
        trace := trace s
          @ (case broadcasterSocket s of Some b \<Rightarrow> [Send b (ViewerLeft v)] | None \<Rightarrow> [])
          @ countEffects (s\<lparr> viewerSockets := DAList.delete v (viewerSockets s) \<rparr>) \<rparr>"
  using assms
  by (simp add: websocket_close.simps Let_def broadcastViewerCount_eq ws_send_def countEffects_def
        entries_delete split: option.splits)

subsection \<open>Dispatch\<close>

lemma field_not_null: "field message k = Some x \<Longrightarrow> message \<noteq> JNull"
  by (auto simp: field_def)

lemma register_dispatch:
  assumes "field message ''type'' = Some (JString ''register'')"
  shows "websocket_message s ws (Parsed message) uuid
           = handleRegister s ws (field message ''role'') uuid"
proof -
  have "message \<noteq> JNull" using assms by (rule field_not_null)
  then show ?thesis
    using assms by (simp add: websocket_message_def dispatch_def)
qed

lemma register_broadcaster_message:
  "websocket_message s ws (register_msg ''broadcaster'') uuid
     = handleRegister s ws (Some (JString ''broadcaster'')) uuid"
  by (simp add: register_msg_def register_dispatch field_def)

lemma answer_dispatch:
  assumes "role (data s ws) = Some Viewer" and "viewerId (data s ws) = Some own" and "own \<noteq> []"
      and "field message ''type'' = Some (JString ''answer'')"
  shows "websocket_message s ws (Parsed message) uuid
           = forwardAnswer s (field message ''viewerId'') (field message ''sdp'')"
proof -
  have "message \<noteq> JNull" using assms(4) by (rule field_not_null)
  then show ?thesis
    using assms by (simp add: websocket_message_def dispatch_def ensureViewer_def)
qed

subsection \<open>The concrete sessions\<close>

lemmas eval_defs = run_def initial_def register_msg_def websocket_open_def websocket_message_def
  websocket_close.simps dispatch_def handleRegister_def field_def Let_def
  broadcastViewerCount_eq countEffects_def ws_send_def ws_close_def markClosed_def
  entries_def DAList.update.rep_eq DAList.empty.rep_eq DAList.delete.rep_eq DAList.lookup.rep_eq
  fold_send_joined ensureBroadcaster_def ensureViewer_def stopBroadcast_def forwardOffer_def
  forwardAnswer_def get_viewer_def

lemma session_slot: "broadcasterSocket session = Some 10"
  by (simp add: session_def session_events_def eval_defs)

lemma session_viewers: "viewerSockets session = DAList.update ''v2'' 12 (DAList.update ''v1'' 11 DAList.empty)"
  by (simp add: session_def session_events_def eval_defs)

lemma session_entries: "entries session = [(''v1'', 11), (''v2'', 12)]"
  by (simp add: session_def session_events_def eval_defs)

lemma session_role: "role (data session 10) = Some Broadcaster" "role (data session 11) = Some Viewer"
  "viewerId (data session 11) = Some ''v1''" "readyState session 10 = OPEN" "readyState session 11 = OPEN"
  by (simp_all add: session_def session_events_def eval_defs)

lemma session_ready12: "readyState session 12 = OPEN" "role (data session 12) = Some Viewer"
  "viewerId (data session 12) = Some ''v2''"
  by (simp_all add: session_def session_events_def eval_defs)

section \<open>The claims\<close>

text \<open>
  C4 (as stated it fails: the identifier in the message is never compared with the
  sender's own; shown below). Amended: an \<open>answer\<close> from a registered viewer is forwarded
  to the broadcaster in the slot, carrying the \<open>viewerId\<close> and \<open>sdp\<close> of the message
  unchanged, whether or not that \<open>viewerId\<close> equals the sender's own; with an empty slot it
  is dropped. Nothing else changes.
\<close>

theorem answer_forwarded_unchecked:
  assumes "role (data s ws) = Some Viewer"
      and "viewerId (data s ws) = Some own"
      and "own \<noteq> []"
      and "field message ''type'' = Some (JString ''answer'')"
  shows "websocket_message s ws (Parsed message) uuid =
           (case broadcasterSocket s of
              Some b \<Rightarrow> s\<lparr> trace := trace s @ [Send b (Answer (field message ''viewerId'')
                                                              (field message ''sdp''))] \<rparr>
            | None \<Rightarrow> s)"
  using assms
  by (simp add: answer_dispatch forwardAnswer_def ws_send_def split: option.splits)

theorem answer_forwarded_unchecked_witness:
  "trace (websocket_message session 11 (Parsed (answer_msg ''v1'')) [])
     = trace session @ [Send 10 (Answer (Some (JString ''v1''))
          (Some (JObject [(''type'', JString ''answer''), (''sdp'', JString ''v=0'')])))]
   \<and> trace (websocket_message session 12 (Parsed (answer_msg ''v1'')) [])
     = trace session @ [Send 10 (Answer (Some (JString ''v1''))
          (Some (JObject [(''type'', JString ''answer''), (''sdp'', JString ''v=0'')])))]"
  using answer_forwarded_unchecked [of session 11 "''v1''" "answer_msg ''v1''" "[]"]
        answer_forwarded_unchecked [of session 12 "''v2''" "answer_msg ''v1''" "[]"]
  by (simp add: session_role session_ready12 session_slot answer_msg_def field_def)

text \<open>
  C4, the failing input. Viewer \<open>v1\<close> (socket 11) sends an \<open>answer\<close> naming \<open>v2\<close>; the
  broadcaster is sent that answer.
\<close>

theorem answer_with_foreign_id_forwarded:
  "role (data session 11) = Some Viewer
   \<and> viewerId (data session 11) = Some ''v1''
   \<and> broadcasterSocket session = Some 10
   \<and> trace (websocket_message session 11 (Parsed (answer_msg ''v2'')) [])
       = trace session @ [Send 10 (Answer (Some (JString ''v2''))
            (Some (JObject [(''type'', JString ''answer''), (''sdp'', JString ''v=0'')])))]"
  by (simp add: session_role session_slot answer_msg_def field_def websocket_message_def
        dispatch_def ensureViewer_def forwardAnswer_def ws_send_def)

text \<open>
  C7. When \<open>close\<close> runs for a registered viewer \<open>v\<close> (the socket's role is viewer, its
  identifier is \<open>v\<close>, and the map holds it under \<open>v\<close>), the key \<open>v\<close> is deleted from the
  map, whose size drops by one; the broadcaster in the slot, if any, is sent exactly one
  \<open>viewer-left\<close> naming \<open>v\<close>; then every remaining entry of the map is sent a
  \<open>viewer-count\<close> with the new size, and so is the broadcaster when its channel is open.
  Nothing else is sent, and slot, ready states and roles are unchanged. (An identifier
  produced by \<open>crypto.randomUUID()\<close> is never the empty string.)
\<close>

theorem viewer_close_cascade:
  assumes "role (data s ws) = Some Viewer"
      and "viewerId (data s ws) = Some v"
      and "v \<noteq> []"
      and "DAList.lookup (viewerSockets s) v = Some ws"
  shows "let after = websocket_close s ws; n = length (entries after)
         in viewerSockets after = DAList.delete v (viewerSockets s)
          \<and> DAList.lookup (viewerSockets after) v = None
          \<and> Suc n = length (entries s)
          \<and> trace after = trace s
               @ (case broadcasterSocket s of Some b \<Rightarrow> [Send b (ViewerLeft v)] | None \<Rightarrow> [])
               @ map (\<lambda>(vid, viewerWs). Send viewerWs (ViewerCount n)) (entries after)
               @ (case broadcasterSocket s of
                    Some b \<Rightarrow> if readyState s b = OPEN then [Send b (ViewerCount n)] else []
                  | None \<Rightarrow> [])
          \<and> broadcasterSocket after = broadcasterSocket s
          \<and> readyState after = readyState s
          \<and> data after = data s"
proof -
  let ?after = "websocket_close s ws"
  have eq: "?after =
     s\<lparr> viewerSockets := DAList.delete v (viewerSockets s),
        trace := trace s
          @ (case broadcasterSocket s of Some b \<Rightarrow> [Send b (ViewerLeft v)] | None \<Rightarrow> [])
          @ countEffects (s\<lparr> viewerSockets := DAList.delete v (viewerSockets s) \<rparr>) \<rparr>"
    using assms(1-3) by (rule websocket_close_viewer)
  have ent: "entries ?after = AList.delete v (entries s)"
    by (simp add: eq entries_def DAList.delete.rep_eq)
  have "map_of (entries s) v = Some ws"
    using assms(4) by (simp add: entries_def DAList.lookup.rep_eq)
  moreover have "distinct (map fst (entries s))"
    by (simp add: entries_def)
  ultimately have "Suc (length (AList.delete v (entries s))) = length (entries s)"
    by (rule length_delete [rotated])
  then have len: "Suc (length (entries ?after)) = length (entries s)"
    by (simp only: ent)
  have tr: "trace ?after = trace s
               @ (case broadcasterSocket s of Some b \<Rightarrow> [Send b (ViewerLeft v)] | None \<Rightarrow> [])
               @ map (\<lambda>(vid, viewerWs). Send viewerWs (ViewerCount (length (entries ?after))))
                   (entries ?after)
               @ (case broadcasterSocket s of
                    Some b \<Rightarrow> if readyState s b = OPEN
                              then [Send b (ViewerCount (length (entries ?after)))] else []
                  | None \<Rightarrow> [])"
    unfolding ent by (simp add: eq countEffects_def entries_delete split: option.splits)
  have frame: "viewerSockets ?after = DAList.delete v (viewerSockets s)"
    "DAList.lookup (viewerSockets ?after) v = None"
    "broadcasterSocket ?after = broadcasterSocket s"
    "readyState ?after = readyState s" "data ?after = data s"
    by (simp_all add: eq)
  show ?thesis
    unfolding Let_def using frame len tr by (intro conjI)
qed

theorem viewer_close_cascade_witness:
  "viewerSockets (step session (Disconnect 11)) = DAList.delete ''v1'' (viewerSockets session)
   \<and> entries (step session (Disconnect 11)) = [(''v2'', 12)]
   \<and> trace (step session (Disconnect 11))
       = trace session @ [Send 10 (ViewerLeft ''v1''), Send 12 (ViewerCount 1), Send 10 (ViewerCount 1)]"
  using viewer_close_cascade
          [of "session\<lparr> readyState := (readyState session)(11 := CLOSED) \<rparr>" 11 "''v1''"]
  by (simp add: Let_def session_role session_slot session_viewers entries_def
        DAList.delete.rep_eq DAList.update.rep_eq DAList.empty.rep_eq)

text \<open>
  C9 (as stated it fails for a message whose type is none of the known ones: the
  \<open>default\<close> branch only logs; shown below). Amended: when \<open>JSON.parse\<close> throws, when the
  parsed value is \<open>null\<close>, or when the sender fails the role check its message type
  requires (\<open>offer\<close>, \<open>stop\<close> and a candidate of origin \<open>broadcaster\<close> need role
  broadcaster; \<open>answer\<close> and any other candidate need role viewer with an identifier),
  the only effect is one \<open>error\<close> message to the sender: no socket is closed, nothing is
  sent to anybody else, and the registry is unchanged. A parsed value other than \<open>null\<close>
  whose type is none of \<open>register\<close>, \<open>offer\<close>, \<open>answer\<close>, \<open>candidate\<close>, \<open>stop\<close> has no
  effect at all. The callback always returns a state.
\<close>

theorem violations_reported_to_sender:
  "websocket_message s ws ParseFailure uuid = s\<lparr> trace := trace s @ [Send ws (ErrorMsg SyntaxError)] \<rparr>
   \<and> websocket_message s ws (Parsed JNull) uuid
       = s\<lparr> trace := trace s @ [Send ws (ErrorMsg TypeError)] \<rparr>
   \<and> (role (data s ws) \<noteq> Some Broadcaster
        \<and> (field message ''type'' = Some (JString ''offer'')
           \<or> field message ''type'' = Some (JString ''stop'')
           \<or> field message ''type'' = Some (JString ''candidate'')
             \<and> field message ''origin'' = Some (JString ''broadcaster''))
      \<longrightarrow> websocket_message s ws (Parsed message) uuid
            = s\<lparr> trace := trace s @ [Send ws (ErrorMsg
                  (Error ''Only the broadcaster may perform this action''))] \<rparr>)
   \<and> ((role (data s ws) \<noteq> Some Viewer \<or> viewerId (data s ws) = None
          \<or> viewerId (data s ws) = Some [])
        \<and> (field message ''type'' = Some (JString ''answer'')
           \<or> field message ''type'' = Some (JString ''candidate'')
             \<and> field message ''origin'' \<noteq> Some (JString ''broadcaster''))
      \<longrightarrow> websocket_message s ws (Parsed message) uuid
            = s\<lparr> trace := trace s @ [Send ws (ErrorMsg
                  (Error ''Only a registered viewer may perform this action''))] \<rparr>)
   \<and> (message \<noteq> JNull
        \<and> field message ''type'' \<notin> {Some (JString ''register''), Some (JString ''offer''),
              Some (JString ''answer''), Some (JString ''candidate''), Some (JString ''stop'')}
      \<longrightarrow> websocket_message s ws (Parsed message) uuid = s)"
proof -
  have unparsed: "websocket_message s ws ParseFailure uuid
                  = s\<lparr> trace := trace s @ [Send ws (ErrorMsg SyntaxError)] \<rparr>"
    by (simp add: websocket_message_def dispatch_def ws_send_def)
  have isnull: "websocket_message s ws (Parsed JNull) uuid
                = s\<lparr> trace := trace s @ [Send ws (ErrorMsg TypeError)] \<rparr>"
    by (simp add: websocket_message_def dispatch_def ws_send_def)
  have nb: "websocket_message s ws (Parsed message) uuid
            = s\<lparr> trace := trace s @ [Send ws (ErrorMsg
                  (Error ''Only the broadcaster may perform this action''))] \<rparr>"
    if r: "role (data s ws) \<noteq> Some Broadcaster"
    and t: "field message ''type'' = Some (JString ''offer'')
           \<or> field message ''type'' = Some (JString ''stop'')
           \<or> field message ''type'' = Some (JString ''candidate'')
             \<and> field message ''origin'' = Some (JString ''broadcaster'')"
  proof -
    from t have "message \<noteq> JNull" by (auto dest: field_not_null)
    with r t show ?thesis
      by (auto simp: websocket_message_def dispatch_def ensureBroadcaster_def ws_send_def)
  qed
  have nv: "websocket_message s ws (Parsed message) uuid
            = s\<lparr> trace := trace s @ [Send ws (ErrorMsg
                  (Error ''Only a registered viewer may perform this action''))] \<rparr>"
    if r: "role (data s ws) \<noteq> Some Viewer \<or> viewerId (data s ws) = None
          \<or> viewerId (data s ws) = Some []"
    and t: "field message ''type'' = Some (JString ''answer'')
           \<or> field message ''type'' = Some (JString ''candidate'')
             \<and> field message ''origin'' \<noteq> Some (JString ''broadcaster'')"
  proof -
    from t have "message \<noteq> JNull" by (auto dest: field_not_null)
    with r t show ?thesis
      by (auto simp: websocket_message_def dispatch_def ensureViewer_def ws_send_def)
  qed
  have unknown: "websocket_message s ws (Parsed message) uuid = s"
    if "message \<noteq> JNull"
    and "field message ''type'' \<notin> {Some (JString ''register''), Some (JString ''offer''),
              Some (JString ''answer''), Some (JString ''candidate''), Some (JString ''stop'')}"
    using that by (simp add: websocket_message_def dispatch_def)
  show ?thesis
    using unparsed isnull nb nv unknown by blast
qed

theorem violations_reported_to_sender_witness:
  "websocket_message session 11 (Parsed (offer_msg ''v2'')) []
     = session\<lparr> trace := trace session @ [Send 11 (ErrorMsg
           (Error ''Only the broadcaster may perform this action''))] \<rparr>
   \<and> websocket_message session 10 (Parsed (candidate_msg ''v1'' ''viewer'')) []
     = session\<lparr> trace := trace session @ [Send 10 (ErrorMsg
           (Error ''Only a registered viewer may perform this action''))] \<rparr>
   \<and> websocket_message session 10 (Parsed (JArray [])) [] = session"
  using violations_reported_to_sender [of session 11 "[]" "offer_msg ''v2''"]
        violations_reported_to_sender [of session 10 "[]" "candidate_msg ''v1'' ''viewer''"]
        violations_reported_to_sender [of session 10 "[]" "JArray []"]
  by (simp add: session_role offer_msg_def candidate_msg_def field_def)

text \<open>
  C9, the failing input. A message of type \<open>ping\<close> is not one of the known shapes; the
  sender is sent nothing.
\<close>

theorem unknown_type_gets_no_error:
  "field ping_msg ''type'' = Some (JString ''ping'')
   \<and> trace (websocket_message session 11 (Parsed ping_msg) []) = trace session"
  by (simp add: ping_msg_def field_def websocket_message_def dispatch_def)

end
